theory Spec2Isabelle
  imports Complex_Main "HOL-Library.Word"
begin

section \<open>Calculate Coverage: data model\<close>

text \<open>
  The notebook projects an area of interest (AOI) to UTM, sizes a coverage grid from its
  bounding box, intersects every catalog footprint with the AOI and accumulates the
  rasterised overlaps in a \<open>uint16\<close> array.

  Python floats are modelled as \<^typ>\<open>real\<close> (rounding, infinities and NaN are outside the
  model), Python ints as \<^typ>\<open>int\<close>, and the cells of the \<open>numpy.uint16\<close> array as
  \<^typ>\<open>16 word\<close>. Every \<open>raise\<close> is a value of \<open>error\<close> on the left of a sum.
\<close>

datatype error =
    Exception string
  | NameError string
  | KeyError string
  | ZeroDivisionError
  | ValueError
  | IndexError

text \<open>\<open>pyproj.Proj(...)\<close> is kept as the string it is built from; the value of
  \<open>partial(pyproj.transform, p1, p2)\<close> is the pair of its two frozen arguments.\<close>

datatype proj = Proj string

datatype proj_fcn = Partial_transform proj proj

text \<open>\<open>rasterio.Affine(a, b, c, d, e, f)\<close>.\<close>

datatype affine = Affine real real real real real real

text \<open>
  The third-party geometry and raster routines the notebook calls are parameters of the
  model: \<open>'g\<close> is a shapely geometry, \<open>'j\<close> a GeoJSON-style geometry dictionary.
  \<^item> \<open>shape\<close>: \<open>shapely.geometry.shape\<close>; \<open>mapping\<close>: \<open>shapely.geometry.mapping\<close>;
  \<^item> \<open>centroid\<close>, \<open>bounds\<close>, \<open>is_empty\<close>, \<open>area\<close>, \<open>intersection\<close>, \<open>disjoint\<close>:
    the attributes and methods of a shapely geometry;
  \<^item> \<open>transform\<close>: \<open>shapely.ops.transform\<close> applied to a projection function;
  \<^item> \<open>burnt\<close>: which cells (row, column) \<open>rasterio.features.rasterize\<close> burns for a list
    of geometries under an affine transform. The notebook leaves that rule to the library.
\<close>

record ('g, 'j) geolib =
  shape :: "'j \<Rightarrow> 'g"
  mapping :: "'g \<Rightarrow> 'j"
  centroid :: "'g \<Rightarrow> real \<times> real"
  bounds :: "'g \<Rightarrow> real \<times> real \<times> real \<times> real"
  is_empty :: "'g \<Rightarrow> bool"
  area :: "'g \<Rightarrow> real"
  intersection :: "'g \<Rightarrow> 'g \<Rightarrow> 'g"
  disjoint :: "'g \<Rightarrow> 'g \<Rightarrow> bool"
  transform :: "proj_fcn \<Rightarrow> 'g \<Rightarrow> 'g"
  burnt :: "'j list \<Rightarrow> affine \<Rightarrow> nat \<Rightarrow> nat \<Rightarrow> bool"

text \<open>Python's \<open>int(x)\<close> on a float truncates towards zero.\<close>

definition py_int :: "real \<Rightarrow> int" where
  "py_int x = (if 0 \<le> x then \<lfloor>x\<rfloor> else \<lceil>x\<rceil>)"

section \<open>UTM Projector\<close>

text \<open>
  \<^verbatim>\<open>
  def _get_utm_zone(geom):
      coordinates = shape(geom)
      lon = coordinates.centroid.x
      lat = coordinates.centroid.y
      if lat > 84 or lat < -80:
          raise Exception('UTM Zones only valid within [-80, 84] latitude')
      zone = int((lon + 180) / 6 + 1)
      hemisphere = 'north' if lat > 0 else 'south'
      return (zone, hemisphere)
  \<close>
\<close>

definition get_utm_zone :: "('g, 'j) geolib \<Rightarrow> 'j \<Rightarrow> error + (int \<times> string)" where
  "get_utm_zone lib geom =
     (let coordinates = shape lib geom;
          lon = fst (centroid lib coordinates);
          lat = snd (centroid lib coordinates)
      in if lat > 84 \<or> lat < - 80
         then Inl (Exception ''UTM Zones only valid within [-80, 84] latitude'')
         else let zone = py_int ((lon + 180) / 6 + 1);
                  hemisphere = (if lat > 0 then ''north'' else ''south'')
              in Inr (zone, hemisphere))"

text \<open>
  \<^verbatim>\<open>
  def _get_utm_projection(geom):
      proj_str = "EPSG:32617"
      return pyproj.Proj(proj_str)

  def get_utm_projection_fcn(geom):
      proj_fcn = partial(pyproj.transform, pyproj.Proj(init='EPSG:4326'),
                         _get_utm_projection(geom))
      return proj_fcn
  \<close>
\<close>

definition get_utm_projection :: "'g \<Rightarrow> proj" where
  "get_utm_projection geom = (let proj_str = ''EPSG:32617'' in Proj proj_str)"

definition get_utm_projection_fcn :: "'g \<Rightarrow> proj_fcn" where
  "get_utm_projection_fcn geom =
     (let proj_fcn = Partial_transform (Proj ''EPSG:4326'') (get_utm_projection geom)
      in proj_fcn)"

section \<open>Grid Sizer\<close>

text \<open>
  \<^verbatim>\<open>
  def get_coverage_dimensions(aoi_shape_utm):
      minx, miny, maxx, maxy = aoi_shape_utm.bounds
      width = maxx - minx
      height = maxy - miny
      min_cell_size = 9
      min_number_of_cells = 3
      max_number_of_cells = 3000
      min_dim = min_cell_size * min_number_of_cells
      if height < min_dim:
          raise Exception('AOI height too small, should be {}m.'.format(min_dim))
      if width < min_dim:
          raise Exception('AOI width too small, should be {}m.'.format(min_dim))
      def _dim(length):
          return min(int(length/min_cell_size), max_number_of_cells)
      return [_dim(l) for l in (height, width)]
  \<close>
  The two-element list that is returned is modelled as a pair (rows, columns), the inner
  function \<open>_dim\<close> is \<open>dim_of\<close>. The formatted messages carry \<open>min_dim = 9 * 3 = 27\<close>.
\<close>

definition min_cell_size :: int where
  "min_cell_size = 9"

definition min_number_of_cells :: int where
  "min_number_of_cells = 3"

definition max_number_of_cells :: int where
  "max_number_of_cells = 3000"

definition min_dim :: int where
  "min_dim = min_cell_size * min_number_of_cells"

definition dim_of :: "real \<Rightarrow> int" where
  "dim_of len = min (py_int (len / of_int min_cell_size)) max_number_of_cells"

definition get_coverage_dimensions :: "('g, 'j) geolib \<Rightarrow> 'g \<Rightarrow> error + (int \<times> int)" where
  "get_coverage_dimensions lib aoi_shape_utm =
     (case bounds lib aoi_shape_utm of (minx, miny, maxx, maxy) \<Rightarrow>
        let width = maxx - minx;
            height = maxy - miny
        in if height < of_int min_dim
           then Inl (Exception ''AOI height too small, should be 27m.'')
           else if width < of_int min_dim
           then Inl (Exception ''AOI width too small, should be 27m.'')
           else Inr (dim_of height, dim_of width))"

section \<open>The notebook's global namespace\<close>

text \<open>
  A Python function body resolves a global name when the line runs, in the namespace of
  the kernel, so that namespace is an input of every call. \<open>notebook_names\<close> lists every
  name the notebook binds by an import, an assignment or a \<open>def\<close> at top level, so it
  bounds from above the names bound at any moment of a run in a new kernel. A name that is
  not bound raises \<open>NameError\<close>. The two names the notebook uses and never binds are
  \<open>sgeom\<close> (in \<open>calculate_coverage\<close>) and \<open>data_filter\<close> (in the cell "Build Request").
\<close>

definition notebook_names :: "string list" where
  "notebook_names =
     [''print_function'', ''datetime'', ''copy'', ''partial'', ''gpd'', ''os'',
      ''display'', ''Image'', ''matplotlib'', ''cm'', ''plt'', ''np'', ''pd'', ''Auth'',
      ''Session'', ''DataClient'', ''OrdersClient'', ''pyproj'', ''rasterio'',
      ''rfeatures'', ''transform'', ''shape'', ''shapely'',
      ''test_aoi_geom'', ''aoi_shape'', ''item_type'', ''geom_filter'',
      ''date_range_filter'', ''cloud_cover_filter'', ''combined_filter'', ''sess'', ''cl'',
      ''request'', ''get_utm_projection_fcn'', ''_get_utm_zone'', ''_get_utm_projection'',
      ''proj_fcn'', ''aoi_shape_utm'', ''get_coverage_dimensions'', ''dimensions'',
      ''API_KEY'', ''client'', ''apiAuth'', ''items'', ''item_list'',
      ''get_overlap_shapes_utm'', ''overlaps'', ''calculate_coverage'', ''plot_coverage'',
      ''demo_aoi'', ''demo_aoi_shape'', ''demo_aoi_shape_utm'', ''demo_dimensions'',
      ''combined_filter_2016'', ''item_list_2016'', ''overlaps_2016'',
      ''combined_filter_2017'', ''item_list_2017'', ''overlaps_2017'']"

definition lookup_global :: "string list \<Rightarrow> string \<Rightarrow> error + unit" where
  "lookup_global names n = (if n \<in> set names then Inr () else Inl (NameError n))"

section \<open>Overlap Calculator\<close>

text \<open>
  \<^verbatim>\<open>
  def get_overlap_shapes_utm(items, aoi_shape):
      proj_fcn = get_utm_projection_fcn(aoi_shape)
      aoi_shape_utm = shapely.ops.transform(proj_fcn, aoi_shape)
      def _calculate_overlap(item):
          footprint_shape = shape(item['geometry'])
          footprint_shape_utm = shapely.ops.transform(proj_fcn, footprint_shape)
          return aoi_shape_utm.intersection(footprint_shape_utm)
      for i in items:
          yield _calculate_overlap(i)
  \<close>
  An item is a dictionary; \<open>item['geometry']\<close> raises \<open>KeyError\<close> when the key is missing.
  The generator is modelled by the list that \<open>list(...)\<close> collects from it, and by the
  exception that stops the collection at the first item that raises.
\<close>

type_synonym 'j item = "string \<rightharpoonup> 'j"

definition calculate_overlap ::
  "('g, 'j) geolib \<Rightarrow> proj_fcn \<Rightarrow> 'g \<Rightarrow> 'j item \<Rightarrow> error + 'g" where
  "calculate_overlap lib proj_fcn aoi_shape_utm item =
     (case item ''geometry'' of
        None \<Rightarrow> Inl (KeyError ''geometry'')
      | Some geometry \<Rightarrow>
          let footprint_shape = shape lib geometry;
              footprint_shape_utm = transform lib proj_fcn footprint_shape
          in Inr (intersection lib aoi_shape_utm footprint_shape_utm))"

fun yield_all :: "('a \<Rightarrow> error + 'b) \<Rightarrow> 'a list \<Rightarrow> error + 'b list" where
  "yield_all f [] = Inr []"
| "yield_all f (i # items) =
     (case f i of
        Inl e \<Rightarrow> Inl e
      | Inr y \<Rightarrow> (case yield_all f items of Inl e \<Rightarrow> Inl e | Inr ys \<Rightarrow> Inr (y # ys)))"

definition get_overlap_shapes_utm ::
  "('g, 'j) geolib \<Rightarrow> 'j item list \<Rightarrow> 'g \<Rightarrow> error + 'g list" where
  "get_overlap_shapes_utm lib items aoi_shape =
     (let proj_fcn = get_utm_projection_fcn aoi_shape;
          aoi_shape_utm = transform lib proj_fcn aoi_shape
      in yield_all (calculate_overlap lib proj_fcn aoi_shape_utm) items)"

section \<open>Coverage Rasterizer\<close>

type_synonym grid = "16 word list list"

text \<open>\<open>np.zeros(dimensions, dtype=np.uint16)\<close>; a negative dimension raises \<open>ValueError\<close>.\<close>

definition np_zeros :: "int \<times> int \<Rightarrow> error + grid" where
  "np_zeros dimensions =
     (case dimensions of (y_count, x_count) \<Rightarrow>
        if y_count < 0 \<or> x_count < 0 then Inl ValueError
        else Inr (replicate (nat y_count) (replicate (nat x_count) 0)))"

text \<open>
  \<open>rfeatures.rasterize(shapes, fill, default_value, out_shape, transform)\<close>: an array of
  shape \<open>out_shape\<close> holding \<open>default_value\<close> in the cells the library burns and \<open>fill\<close> in the
  others.
\<close>

definition rasterize ::
  "('g, 'j) geolib \<Rightarrow> 'j list \<Rightarrow> nat \<Rightarrow> nat \<Rightarrow> int \<times> int \<Rightarrow> affine \<Rightarrow> nat list list" where
  "rasterize lib shapes fill default_value out_shape tf =
     map (\<lambda>r. map (\<lambda>c. if burnt lib shapes tf r c then default_value else fill)
                 [0 ..< nat (snd out_shape)])
         [0 ..< nat (fst out_shape)]"

text \<open>\<open>coverage += overlap_raster\<close> on arrays of one shape: cell by cell, in \<open>uint16\<close>.\<close>

definition iadd :: "grid \<Rightarrow> nat list list \<Rightarrow> grid" where
  "iadd coverage overlap_raster =
     map2 (\<lambda>row raster_row. map2 (\<lambda>a v. a + of_nat v) row raster_row) coverage overlap_raster"

text \<open>
  \<^verbatim>\<open>
  def calculate_coverage(overlaps, dimensions, bounds):
      mminx, mminy, mmaxx, mmaxy = bounds
      y_count, x_count = dimensions
      width = (mmaxx - mminx) / x_count
      height = (mminy - mmaxy) / y_count # should be negative
      transform = rasterio.Affine(width, 0, mminx, 0, height, mmaxy)
      coverage = np.zeros(dimensions, dtype=np.uint16)
      for overlap in overlaps:
          if not overlap.is_empty:
              overlap_raster = rfeatures.rasterize(
                      [sgeom.mapping(overlap)],
                      fill=0, default_value=1,
                      out_shape=dimensions, transform=transform)
              coverage += overlap_raster
      return coverage
  \<close>
  The loop is \<open>accumulate\<close>. The global \<open>sgeom\<close> is looked up each time the argument list
  of \<open>rasterize\<close> is evaluated, in the namespace \<open>names\<close> of the kernel.
\<close>

fun accumulate ::
  "string list \<Rightarrow> ('g, 'j) geolib \<Rightarrow> int \<times> int \<Rightarrow> affine \<Rightarrow> grid \<Rightarrow> 'g list \<Rightarrow> error + grid"
where
  "accumulate names lib dimensions tf coverage [] = Inr coverage"
| "accumulate names lib dimensions tf coverage (overlap # overlaps) =
     (if \<not> is_empty lib overlap then
        (case lookup_global names ''sgeom'' of
           Inl e \<Rightarrow> Inl e
         | Inr _ \<Rightarrow>
             let overlap_raster = rasterize lib [mapping lib overlap] 0 1 dimensions tf
             in accumulate names lib dimensions tf (iadd coverage overlap_raster) overlaps)
      else accumulate names lib dimensions tf coverage overlaps)"

definition pixel_transform :: "int \<times> int \<Rightarrow> real \<times> real \<times> real \<times> real \<Rightarrow> affine" where
  "pixel_transform dimensions bnds =
     (case bnds of (mminx, mminy, mmaxx, mmaxy) \<Rightarrow>
      case dimensions of (y_count, x_count) \<Rightarrow>
        let width = (mmaxx - mminx) / of_int x_count;
            height = (mminy - mmaxy) / of_int y_count
        in Affine width 0 mminx 0 height mmaxy)"

definition calculate_coverage ::
  "string list \<Rightarrow> ('g, 'j) geolib \<Rightarrow> 'g list \<Rightarrow> int \<times> int \<Rightarrow> real \<times> real \<times> real \<times> real
     \<Rightarrow> error + grid" where
  "calculate_coverage names lib overlaps dimensions bnds =
     (case dimensions of (y_count, x_count) \<Rightarrow>
        if x_count = 0 then Inl ZeroDivisionError
        else if y_count = 0 then Inl ZeroDivisionError
        else let tf = pixel_transform dimensions bnds
             in (case np_zeros dimensions of
                   Inl e \<Rightarrow> Inl e
                 | Inr coverage \<Rightarrow> accumulate names lib dimensions tf coverage overlaps))"

text \<open>The number of non-empty overlaps that the library burns into cell (r, c).\<close>

definition covering ::
  "('g, 'j) geolib \<Rightarrow> affine \<Rightarrow> 'g list \<Rightarrow> nat \<Rightarrow> nat \<Rightarrow> nat" where
  "covering lib tf overlaps r c =
     length (filter (\<lambda>overlap. \<not> is_empty lib overlap \<and> burnt lib [mapping lib overlap] tf r c)
               overlaps)"

definition wf_grid :: "nat \<Rightarrow> nat \<Rightarrow> 'a list list \<Rightarrow> bool" where
  "wf_grid rows cols g = (length g = rows \<and> (\<forall>row \<in> set g. length row = cols))"

section \<open>A concrete geometry library: axis-aligned rectangles\<close>

text \<open>
  To run the model on concrete inputs, the library parameter is instantiated with
  axis-aligned rectangles \<open>Rect minx miny maxx maxy\<close>: they are closed under intersection,
  their GeoJSON dictionary is represented by the rectangle itself, the projection scales
  degrees to metres by a constant factor of 100, and a cell is burnt when its centre lies
  in one of the rectangles.
\<close>

datatype rect = Empty | Rect real real real real

fun rect_centroid :: "rect \<Rightarrow> real \<times> real" where
  "rect_centroid Empty = (0, 0)"
| "rect_centroid (Rect minx miny maxx maxy) = ((minx + maxx) / 2, (miny + maxy) / 2)"

fun rect_bounds :: "rect \<Rightarrow> real \<times> real \<times> real \<times> real" where
  "rect_bounds Empty = (0, 0, 0, 0)"
| "rect_bounds (Rect minx miny maxx maxy) = (minx, miny, maxx, maxy)"

fun rect_area :: "rect \<Rightarrow> real" where
  "rect_area Empty = 0"
| "rect_area (Rect minx miny maxx maxy) = max 0 (maxx - minx) * max 0 (maxy - miny)"

fun rect_intersection :: "rect \<Rightarrow> rect \<Rightarrow> rect" where
  "rect_intersection (Rect a b c d) (Rect a' b' c' d') =
     (if max a a' \<le> min c c' \<and> max b b' \<le> min d d'
      then Rect (max a a') (max b b') (min c c') (min d d') else Empty)"
| "rect_intersection _ _ = Empty"

fun rect_scale :: "real \<Rightarrow> rect \<Rightarrow> rect" where
  "rect_scale k Empty = Empty"
| "rect_scale k (Rect minx miny maxx maxy) = Rect (k * minx) (k * miny) (k * maxx) (k * maxy)"

fun rect_contains :: "real \<Rightarrow> real \<Rightarrow> rect \<Rightarrow> bool" where
  "rect_contains x y Empty = False"
| "rect_contains x y (Rect minx miny maxx maxy) = (minx \<le> x \<and> x \<le> maxx \<and> miny \<le> y \<and> y \<le> maxy)"

fun rect_burnt :: "rect list \<Rightarrow> affine \<Rightarrow> nat \<Rightarrow> nat \<Rightarrow> bool" where
  "rect_burnt shapes (Affine a b c d e f) row col =
     (let x = a * (real col + 1 / 2) + b * (real row + 1 / 2) + c;
          y = d * (real col + 1 / 2) + e * (real row + 1 / 2) + f
      in list_ex (rect_contains x y) shapes)"

definition rect_lib :: "(rect, rect) geolib" where
  "rect_lib =
     \<lparr> shape = (\<lambda>j. j), mapping = (\<lambda>g. g), centroid = rect_centroid, bounds = rect_bounds,
       is_empty = (\<lambda>g. g = Empty), area = rect_area, intersection = rect_intersection,
       disjoint = (\<lambda>a b. rect_intersection a b = Empty),
       transform = (\<lambda>pf. rect_scale 100), burnt = rect_burnt \<rparr>"

text \<open>The exceptions the spec calls a DomainError are raised as plain \<open>Exception\<close>s.\<close>

fun DomainError :: "error \<Rightarrow> bool" where
  "DomainError (Exception msg) = True"
| "DomainError _ = False"

section \<open>The notebook as a run of its cells\<close>

text \<open>
  The kernel holds the global variables the cells assign and read, the names bound
  otherwise (\<open>bound_names\<close>: imports and whatever the session bound before), the exception
  that stopped the run, and a log of what the run did outside the kernel: the two catalog
  calls (\<open>cl.create_search\<close> and \<open>cl.search\<close>), each call of \<open>calculate_coverage\<close>, and
  each grid handed to \<open>display\<close> or \<open>plot_coverage\<close>. Reading a variable that was never
  assigned raises \<open>NameError\<close>. The request objects of the catalog client and the plotting
  code are not modelled; the catalog is taken to answer every call.
\<close>

datatype event =
    Create_search
  | Search
  | Coverage_call "int \<times> int"
  | Shown grid

record ('g, 'j) kernel =
  bound_names :: "string list"
  events :: "event list"
  raised :: "error option"
  g_aoi_shape :: "'g option"
  g_proj_fcn :: "proj_fcn option"
  g_aoi_shape_utm :: "'g option"
  g_dimensions :: "(int \<times> int) option"
  g_item_list :: "'j item list option"
  g_overlaps :: "'g list option"

definition fresh_kernel :: "string list \<Rightarrow> ('g, 'j) kernel" where
  "fresh_kernel names =
     \<lparr> bound_names = names, events = [], raised = None, g_aoi_shape = None,
       g_proj_fcn = None, g_aoi_shape_utm = None, g_dimensions = None,
       g_item_list = None, g_overlaps = None \<rparr>"

definition raise :: "error \<Rightarrow> ('g, 'j) kernel \<Rightarrow> ('g, 'j) kernel" where
  "raise e k = k\<lparr>raised := Some e\<rparr>"

definition emit :: "event \<Rightarrow> ('g, 'j) kernel \<Rightarrow> ('g, 'j) kernel" where
  "emit ev k = k\<lparr>events := events k @ [ev]\<rparr>"

text \<open>Cell "Define AOI": \<^verbatim>\<open>aoi_shape = shape(test_aoi_geom)\<close>.\<close>

definition cell_define_aoi ::
  "('g, 'j) geolib \<Rightarrow> 'j \<Rightarrow> ('g, 'j) kernel \<Rightarrow> ('g, 'j) kernel" where
  "cell_define_aoi lib test_aoi_geom k = k\<lparr>g_aoi_shape := Some (shape lib test_aoi_geom)\<rparr>"

text \<open>
  Cell "Build Request":
  \<^verbatim>\<open>
  geom_filter = data_filter.geometry_filter(test_aoi_geom)
  ...
  async with Session() as sess:
      cl = DataClient(sess)
      request = await cl.create_search(name='calc_coverage_search', ...)
  \<close>
\<close>

definition cell_build_request :: "('g, 'j) kernel \<Rightarrow> ('g, 'j) kernel" where
  "cell_build_request k =
     (case lookup_global (bound_names k) ''data_filter'' of
        Inl e \<Rightarrow> raise e k
      | Inr _ \<Rightarrow> emit Create_search k)"

text \<open>
  \<^verbatim>\<open>
  proj_fcn = get_utm_projection_fcn(aoi_shape)
  aoi_shape_utm = shapely.ops.transform(proj_fcn, aoi_shape)
  \<close>
\<close>

definition cell_project :: "('g, 'j) geolib \<Rightarrow> ('g, 'j) kernel \<Rightarrow> ('g, 'j) kernel" where
  "cell_project lib k =
     (case g_aoi_shape k of
        None \<Rightarrow> raise (NameError ''aoi_shape'') k
      | Some aoi_shape \<Rightarrow>
          let proj_fcn = get_utm_projection_fcn aoi_shape
          in k\<lparr>g_proj_fcn := Some proj_fcn,
                g_aoi_shape_utm := Some (transform lib proj_fcn aoi_shape)\<rparr>)"

text \<open>\<^verbatim>\<open>dimensions = get_coverage_dimensions(aoi_shape_utm)\<close>\<close>

definition cell_dimensions :: "('g, 'j) geolib \<Rightarrow> ('g, 'j) kernel \<Rightarrow> ('g, 'j) kernel" where
  "cell_dimensions lib k =
     (case g_aoi_shape_utm k of
        None \<Rightarrow> raise (NameError ''aoi_shape_utm'') k
      | Some aoi_shape_utm \<Rightarrow>
          (case get_coverage_dimensions lib aoi_shape_utm of
             Inl e \<Rightarrow> raise e k
           | Inr dimensions \<Rightarrow> k\<lparr>g_dimensions := Some dimensions\<rparr>))"

text \<open>
  \<^verbatim>\<open>
  items = await cl.search(name='calc_coverage_search', ..., limit=500)
  item_list = [i async for i in items]
  \<close>
  \<open>catalog\<close> is the sequence of items the service matches; the client yields at most
  \<open>limit\<close> of them.
\<close>

definition search_limit :: nat where
  "search_limit = 500"

definition cell_search :: "'j item list \<Rightarrow> ('g, 'j) kernel \<Rightarrow> ('g, 'j) kernel" where
  "cell_search catalog k = (emit Search k)\<lparr>g_item_list := Some (take search_limit catalog)\<rparr>"

text \<open>\<^verbatim>\<open>overlaps = list(get_overlap_shapes_utm(item_list, aoi_shape))\<close>\<close>

definition cell_overlaps :: "('g, 'j) geolib \<Rightarrow> ('g, 'j) kernel \<Rightarrow> ('g, 'j) kernel" where
  "cell_overlaps lib k =
     (case g_item_list k of
        None \<Rightarrow> raise (NameError ''item_list'') k
      | Some item_list \<Rightarrow>
          (case g_aoi_shape k of
             None \<Rightarrow> raise (NameError ''aoi_shape'') k
           | Some aoi_shape \<Rightarrow>
               (case get_overlap_shapes_utm lib item_list aoi_shape of
                  Inl e \<Rightarrow> raise e k
                | Inr overlaps \<Rightarrow> k\<lparr>g_overlaps := Some overlaps\<rparr>)))"

text \<open>\<^verbatim>\<open>display(overlaps[0])\<close>\<close>

definition cell_first_overlap :: "('g, 'j) kernel \<Rightarrow> ('g, 'j) kernel" where
  "cell_first_overlap k =
     (case g_overlaps k of
        None \<Rightarrow> raise (NameError ''overlaps'') k
      | Some [] \<Rightarrow> raise IndexError k
      | Some (overlap # _) \<Rightarrow> k)"

text \<open>
  \<^verbatim>\<open>display(calculate_coverage(overlaps, (6,3), aoi_shape_utm.bounds))\<close> and
  \<^verbatim>\<open>plot_coverage(calculate_coverage(overlaps, dimensions, aoi_shape_utm.bounds))\<close>
\<close>

definition show_coverage ::
  "('g, 'j) geolib \<Rightarrow> 'g list \<Rightarrow> int \<times> int \<Rightarrow> 'g \<Rightarrow> ('g, 'j) kernel \<Rightarrow> ('g, 'j) kernel" where
  "show_coverage lib overlaps dimensions aoi_shape_utm k =
     (let k' = emit (Coverage_call dimensions) k
      in case calculate_coverage (bound_names k) lib overlaps dimensions
                (bounds lib aoi_shape_utm) of
           Inl e \<Rightarrow> raise e k'
         | Inr coverage \<Rightarrow> emit (Shown coverage) k')"

definition cell_low_resolution :: "('g, 'j) geolib \<Rightarrow> ('g, 'j) kernel \<Rightarrow> ('g, 'j) kernel" where
  "cell_low_resolution lib k =
     (case g_overlaps k of
        None \<Rightarrow> raise (NameError ''overlaps'') k
      | Some overlaps \<Rightarrow>
          (case g_aoi_shape_utm k of
             None \<Rightarrow> raise (NameError ''aoi_shape_utm'') k
           | Some aoi_shape_utm \<Rightarrow> show_coverage lib overlaps (6, 3) aoi_shape_utm k))"

definition cell_plot :: "('g, 'j) geolib \<Rightarrow> ('g, 'j) kernel \<Rightarrow> ('g, 'j) kernel" where
  "cell_plot lib k =
     (case g_overlaps k of
        None \<Rightarrow> raise (NameError ''overlaps'') k
      | Some overlaps \<Rightarrow>
          (case g_dimensions k of
             None \<Rightarrow> raise (NameError ''dimensions'') k
           | Some dimensions \<Rightarrow>
               (case g_aoi_shape_utm k of
                  None \<Rightarrow> raise (NameError ''aoi_shape_utm'') k
                | Some aoi_shape_utm \<Rightarrow> show_coverage lib overlaps dimensions aoi_shape_utm k)))"

text \<open>
  "Run All": the cells in the order of the notebook, up to the first coverage plot; the
  run stops at the first cell that raises. The variables keep the values an earlier run
  left in the kernel.
\<close>

definition run_cell :: "(('g, 'j) kernel \<Rightarrow> ('g, 'j) kernel) \<Rightarrow> ('g, 'j) kernel \<Rightarrow> ('g, 'j) kernel" where
  "run_cell cell k = (case raised k of None \<Rightarrow> cell k | Some e \<Rightarrow> k)"

definition run_all ::
  "('g, 'j) geolib \<Rightarrow> 'j \<Rightarrow> 'j item list \<Rightarrow> ('g, 'j) kernel \<Rightarrow> ('g, 'j) kernel" where
  "run_all lib test_aoi_geom catalog k =
     fold run_cell
       [cell_define_aoi lib test_aoi_geom, cell_build_request, cell_project lib,
        cell_dimensions lib, cell_search catalog, cell_overlaps lib, cell_first_overlap,
        cell_low_resolution lib, cell_plot lib]
       (k\<lparr>events := [], raised := None\<rparr>)"

text \<open>What a run shows to the outside: its log and the exception that stopped it.\<close>

definition outcome :: "('g, 'j) kernel \<Rightarrow> event list \<times> error option" where
  "outcome k = (events k, raised k)"

text \<open>
  Two runs agree up to stage \<open>n\<close> when they have the same bound names, log and exception and,
  while no exception stopped them, the same values in the variables assigned by the first
  \<open>n\<close> assignments of the notebook.
\<close>

definition agree :: "nat \<Rightarrow> ('g, 'j) kernel \<Rightarrow> ('g, 'j) kernel \<Rightarrow> bool" where
  "agree n k k' =
     (bound_names k = bound_names k' \<and> events k = events k' \<and> raised k = raised k' \<and>
      (raised k = None \<longrightarrow>
         (1 \<le> n \<longrightarrow> g_aoi_shape k = g_aoi_shape k') \<and>
         (2 \<le> n \<longrightarrow> g_proj_fcn k = g_proj_fcn k' \<and> g_aoi_shape_utm k = g_aoi_shape_utm k') \<and>
         (3 \<le> n \<longrightarrow> g_dimensions k = g_dimensions k') \<and>
         (4 \<le> n \<longrightarrow> g_item_list k = g_item_list k') \<and>
         (5 \<le> n \<longrightarrow> g_overlaps k = g_overlaps k')))"



text \<open>
  Every grid a run has shown was computed from at most \<open>search_limit\<close> overlaps; from
  stage 1 on the item list, and from stage 2 on the list of overlaps, is within that limit.
\<close>

definition limit_inv :: "('g, 'j) geolib \<Rightarrow> nat \<Rightarrow> ('g, 'j) kernel \<Rightarrow> bool" where
  "limit_inv lib n k =
     ((\<forall>cov. Shown cov \<in> set (events k) \<longrightarrow>
         (\<exists>ovs d b. length ovs \<le> search_limit
            \<and> calculate_coverage (bound_names k) lib ovs d b = Inr cov)) \<and>
      (raised k = None \<longrightarrow>
         (1 \<le> n \<longrightarrow> (\<exists>items. g_item_list k = Some items \<and> length items \<le> search_limit)) \<and>
         (2 \<le> n \<longrightarrow> (\<exists>ovs. g_overlaps k = Some ovs \<and> length ovs \<le> search_limit))))"

section \<open>Auxiliary facts\<close>

lemma min_dim_27: "min_dim = 27"
  by (simp add: min_dim_def min_cell_size_def min_number_of_cells_def)

lemma dim_of_floor: "0 \<le> len \<Longrightarrow> dim_of len = min \<lfloor>len / 9\<rfloor> 3000"
  by (simp add: dim_of_def py_int_def min_cell_size_def max_number_of_cells_def)

lemma sgeom_unbound: "''sgeom'' \<notin> set notebook_names"
  by (simp add: notebook_names_def)

lemma data_filter_unbound: "''data_filter'' \<notin> set notebook_names"
  by (simp add: notebook_names_def)

lemma wf_grid_zeros: "wf_grid rows cols (replicate rows (replicate cols z))"
  by (simp add: wf_grid_def)

lemma rasterize_wf:
  "wf_grid (nat y) (nat x) (rasterize lib shapes fill dv (y, x) tf)"
  by (simp add: wf_grid_def rasterize_def)

lemma rasterize_nth:
  "r < nat y \<Longrightarrow> c < nat x \<Longrightarrow>
   rasterize lib shapes fill dv (y, x) tf ! r ! c = (if burnt lib shapes tf r c then dv else fill)"
  by (simp add: rasterize_def)

lemma iadd_wf:
  assumes "wf_grid rows cols cov" "wf_grid rows cols ras"
  shows "wf_grid rows cols (iadd cov ras)"
proof -
  have "length (map2 (\<lambda>a v. a + of_nat v) row rrow) = cols"
    if "(row, rrow) \<in> set (zip cov ras)" for row :: "16 word list" and rrow :: "nat list"
  proof -
    from that have "row \<in> set cov" "rrow \<in> set ras"
      by (auto dest: set_zip_leftD set_zip_rightD)
    with assms show ?thesis by (simp add: wf_grid_def)
  qed
  with assms show ?thesis
    by (auto simp: wf_grid_def iadd_def)
qed

lemma iadd_nth:
  "wf_grid rows cols cov \<Longrightarrow> wf_grid rows cols ras \<Longrightarrow> r < rows \<Longrightarrow> c < cols \<Longrightarrow>
   iadd cov ras ! r ! c = cov ! r ! c + of_nat (ras ! r ! c)"
  by (simp add: wf_grid_def iadd_def)

lemma accumulate_unbound:
  "''sgeom'' \<notin> set names \<Longrightarrow>
   accumulate names lib d tf cov ovs =
     (if \<exists>ov \<in> set ovs. \<not> is_empty lib ov then Inl (NameError ''sgeom'') else Inr cov)"
  by (induction ovs arbitrary: cov) (auto simp: lookup_global_def)

lemma accumulate_bound:
  "''sgeom'' \<in> set names \<Longrightarrow> wf_grid (nat y) (nat x) cov \<Longrightarrow>
   \<exists>cov'. accumulate names lib (y, x) tf cov ovs = Inr cov' \<and> wf_grid (nat y) (nat x) cov' \<and>
     (\<forall>r < nat y. \<forall>c < nat x. cov' ! r ! c = cov ! r ! c + of_nat (covering lib tf ovs r c))"
proof (induction ovs arbitrary: cov)
  case Nil
  then show ?case by (simp add: covering_def)
next
  case (Cons ov ovs)
  show ?case
  proof (cases "is_empty lib ov")
    case True
    with Cons.IH [OF Cons.prems] show ?thesis by (simp add: covering_def)
  next
    case False
    let ?ras = "rasterize lib [mapping lib ov] 0 1 (y, x) tf"
    have wf: "wf_grid (nat y) (nat x) (iadd cov ?ras)"
      using Cons.prems(2) rasterize_wf by (rule iadd_wf)
    from Cons.IH [OF Cons.prems(1) wf] obtain cov' where
      acc: "accumulate names lib (y, x) tf (iadd cov ?ras) ovs = Inr cov'" and
      wf': "wf_grid (nat y) (nat x) cov'" and
      cells: "\<forall>r < nat y. \<forall>c < nat x.
                cov' ! r ! c = iadd cov ?ras ! r ! c + of_nat (covering lib tf ovs r c)"
      by blast
    have "cov' ! r ! c = cov ! r ! c + of_nat (covering lib tf (ov # ovs) r c)"
      if "r < nat y" "c < nat x" for r c
      using that cells False iadd_nth [OF Cons.prems(2) rasterize_wf that, of lib "[mapping lib ov]" 0 1 tf]
      by (simp add: rasterize_nth covering_def)
    with acc wf' False Cons.prems(1) show ?thesis
      by (simp add: lookup_global_def)
  qed
qed

lemma accumulate_cells:
  assumes "accumulate names lib (y, x) tf cov ovs = Inr cov'" "wf_grid (nat y) (nat x) cov"
    "r < nat y" "c < nat x"
  shows "cov' ! r ! c = cov ! r ! c + of_nat (covering lib tf ovs r c)"
proof (cases "''sgeom'' \<in> set names")
  case True
  from accumulate_bound [OF True assms(2), of lib tf ovs] assms show ?thesis by auto
next
  case False
  from assms(1) have "cov' = cov" "\<forall>ov \<in> set ovs. is_empty lib ov"
    by (auto simp: accumulate_unbound [OF False] split: if_splits)
  then show ?thesis by (simp add: covering_def)
qed

lemma calculate_coverage_pos:
  "0 < y \<Longrightarrow> 0 < x \<Longrightarrow>
   calculate_coverage names lib ovs (y, x) b =
     accumulate names lib (y, x) (pixel_transform (y, x) b)
       (replicate (nat y) (replicate (nat x) 0)) ovs"
  by (simp add: calculate_coverage_def np_zeros_def)

lemma calculate_coverage_Inr:
  assumes "calculate_coverage names lib ovs (y, x) b = Inr cov"
  shows "accumulate names lib (y, x) (pixel_transform (y, x) b)
       (replicate (nat y) (replicate (nat x) 0)) ovs = Inr cov"
  using assms by (auto simp: calculate_coverage_def np_zeros_def split: if_splits)

lemma calculate_coverage_cells:
  assumes "calculate_coverage names lib ovs (y, x) b = Inr cov" "r < nat y" "c < nat x"
  shows "cov ! r ! c = of_nat (covering lib (pixel_transform (y, x) b) ovs r c)"
  using accumulate_cells [OF calculate_coverage_Inr [OF assms(1)] wf_grid_zeros assms(2,3)] assms(2,3)
  by simp

lemma covering_le: "covering lib tf ovs r c \<le> length (filter (\<lambda>ov. \<not> is_empty lib ov) ovs)"
  unfolding covering_def by (induction ovs) auto

lemma covering_replicate:
  "covering lib tf (replicate n ov) r c =
     (if \<not> is_empty lib ov \<and> burnt lib [mapping lib ov] tf r c then n else 0)"
  by (simp add: covering_def)

section \<open>Grid Sizer: thresholds and caps\<close>

text \<open>
  Claim C4. With the constants of the source (cell size 9, at least 3 and at most 3000
  cells), \<open>get_coverage_dimensions\<close> raises its exception exactly when the height or the
  width of the bounding box is below 27; otherwise it returns
  \<open>rows = min (floor (height / 9)) 3000\<close> and \<open>cols = min (floor (width / 9)) 3000\<close>. A box
  of 27 by 27 gives (3, 3), a side of 26 fails, and 50000 by 50000 gives (3000, 3000).
\<close>

theorem get_coverage_dimensions_threshold:
  "bounds lib aoi_shape_utm = (minx, miny, maxx, maxy) \<Longrightarrow>
   get_coverage_dimensions lib aoi_shape_utm =
     (if maxy - miny < 27 then Inl (Exception ''AOI height too small, should be 27m.'')
      else if maxx - minx < 27 then Inl (Exception ''AOI width too small, should be 27m.'')
      else Inr (min \<lfloor>(maxy - miny) / 9\<rfloor> 3000, min \<lfloor>(maxx - minx) / 9\<rfloor> 3000))
   \<and> ((\<exists>e. get_coverage_dimensions lib aoi_shape_utm = Inl e \<and> DomainError e)
        \<longleftrightarrow> (maxy - miny < 27 \<or> maxx - minx < 27))
   \<and> (maxy - miny = 27 \<and> maxx - minx = 27
        \<longrightarrow> get_coverage_dimensions lib aoi_shape_utm = Inr (3, 3))
   \<and> (maxy - miny = 26 \<or> maxx - minx = 26
        \<longrightarrow> (\<exists>e. get_coverage_dimensions lib aoi_shape_utm = Inl e \<and> DomainError e))
   \<and> (maxy - miny = 50000 \<and> maxx - minx = 50000
        \<longrightarrow> get_coverage_dimensions lib aoi_shape_utm = Inr (3000, 3000))"
  by (simp add: get_coverage_dimensions_def min_dim_27 dim_of_floor)

theorem get_coverage_dimensions_threshold_witness:
  "get_coverage_dimensions rect_lib (Rect 5 7 32 34) = Inr (3, 3)
   \<and> get_coverage_dimensions rect_lib (Rect 5 7 31 34)
       = Inl (Exception ''AOI width too small, should be 27m.'')
   \<and> get_coverage_dimensions rect_lib (Rect 5 7 32 33)
       = Inl (Exception ''AOI height too small, should be 27m.'')
   \<and> get_coverage_dimensions rect_lib (Rect 0 0 50000 50000) = Inr (3000, 3000)
   \<and> get_coverage_dimensions rect_lib (Rect 0 0 1000 100) = Inr (11, 111)"
proof -
  have b: "bounds rect_lib (Rect a b c d) = (a, b, c, d)" for a b c d
    by (simp add: rect_lib_def)
  show ?thesis
    using get_coverage_dimensions_threshold [OF b [of 5 7 32 34]]
      get_coverage_dimensions_threshold [OF b [of 5 7 31 34]]
      get_coverage_dimensions_threshold [OF b [of 5 7 32 33]]
      get_coverage_dimensions_threshold [OF b [of 0 0 50000 50000]]
      get_coverage_dimensions_threshold [OF b [of 0 0 1000 100]]
    by simp
qed

section \<open>UTM zone selection\<close>

lemma zone_range:
  assumes "- 180 \<le> lon" "lon < 180"
  shows "1 \<le> py_int ((lon + 180) / 6 + 1) \<and> py_int ((lon + 180) / 6 + 1) \<le> 60"
proof -
  let ?q = "(lon + 180) / 6 + 1"
  from assms have q: "1 \<le> ?q" "?q < 61" by simp_all
  then have "py_int ?q = \<lfloor>?q\<rfloor>" by (simp add: py_int_def)
  moreover from q have "1 \<le> \<lfloor>?q\<rfloor>" by (simp add: le_floor_iff)
  moreover from q have "\<lfloor>?q\<rfloor> < 61" by (simp add: floor_less_iff)
  ultimately show ?thesis by simp
qed

text \<open>
  Claim C5, as amended. The check of \<open>_get_utm_zone\<close> is \<open>lat > 84 or lat < -80\<close>, so the
  closed range [-80, 84] is accepted: for a centroid latitude above 84 or below -80 the
  function raises, and for a latitude in [-80, 84] it returns the zone
  \<open>int((lon + 180) / 6 + 1)\<close> with the tag north (latitude above 0) or south; the zone is in
  [1, 60] when the centroid longitude is in [-180, 180).
\<close>

theorem get_utm_zone_closed_range:
  "centroid lib (shape lib geom) = (lon, lat) \<Longrightarrow>
   (lat > 84 \<or> lat < - 80 \<longrightarrow>
      get_utm_zone lib geom = Inl (Exception ''UTM Zones only valid within [-80, 84] latitude'')
      \<and> DomainError (Exception ''UTM Zones only valid within [-80, 84] latitude''))
   \<and> (- 80 \<le> lat \<and> lat \<le> 84 \<longrightarrow>
        get_utm_zone lib geom
          = Inr (py_int ((lon + 180) / 6 + 1), if lat > 0 then ''north'' else ''south'')
        \<and> (- 180 \<le> lon \<and> lon < 180 \<longrightarrow>
             1 \<le> py_int ((lon + 180) / 6 + 1) \<and> py_int ((lon + 180) / 6 + 1) \<le> 60))"
  using zone_range [of lon] by (auto simp: get_utm_zone_def Let_def)

theorem get_utm_zone_closed_range_witness:
  "get_utm_zone rect_lib (Rect (-79) 35 (-78) 36) = Inr (17, ''north'')
   \<and> get_utm_zone rect_lib (Rect 150 (-34) 152 (-33)) = Inr (56, ''south'')
   \<and> get_utm_zone rect_lib (Rect 10 84 12 86)
       = Inl (Exception ''UTM Zones only valid within [-80, 84] latitude'')
   \<and> get_utm_zone rect_lib (Rect 10 (-82) 12 (-80))
       = Inl (Exception ''UTM Zones only valid within [-80, 84] latitude'')"
proof -
  have c: "centroid rect_lib (shape rect_lib (Rect a b c d)) = ((a + c) / 2, (b + d) / 2)"
    for a b c d by (simp add: rect_lib_def)
  show ?thesis
    using get_utm_zone_closed_range [OF c [of "-79" 35 "-78" 36]]
      get_utm_zone_closed_range [OF c [of 150 "-34" 152 "-33"]]
      get_utm_zone_closed_range [OF c [of 10 84 12 86]]
      get_utm_zone_closed_range [OF c [of 10 "-82" 12 "-80"]]
    by (simp add: py_int_def)
qed

text \<open>
  Claim C5 as stated fails on the boundary: the latitudes 84 and -80 lie outside the open
  range (-80, 84) and are accepted, and a centroid on the meridian 180 gets zone 61.
\<close>

theorem get_utm_zone_boundary_counterexample:
  "get_utm_zone rect_lib (Rect (-1) 83 1 85) = Inr (31, ''north'')
   \<and> get_utm_zone rect_lib (Rect (-1) (-81) 1 (-79)) = Inr (31, ''south'')
   \<and> get_utm_zone rect_lib (Rect 180 10 180 12) = Inr (61, ''north'')"
  by (simp add: get_utm_zone_def rect_lib_def py_int_def)

section \<open>The projection does not depend on the geometry\<close>

lemma get_utm_projection_fcn_const:
  "get_utm_projection_fcn geom = Partial_transform (Proj ''EPSG:4326'') (Proj ''EPSG:32617'')"
  by (simp add: get_utm_projection_fcn_def get_utm_projection_def)

text \<open>
  Claim C3 says that the transform projects into the zone that \<open>_get_utm_zone\<close> computes
  for the centroid. The code never calls \<open>_get_utm_zone\<close>: \<open>_get_utm_projection\<close> returns
  EPSG:32617 (zone 17 north) for every geometry. A geometry centred at longitude 3,
  latitude 10 is in zone 31 north and still gets the transform of a geometry in zone 17.
\<close>

theorem get_utm_projection_fcn_ignores_zone:
  "get_utm_zone rect_lib (Rect 2 9 4 11) = Inr (31, ''north'')
   \<and> get_utm_zone rect_lib (Rect (-79) 35 (-78) 36) = Inr (17, ''north'')
   \<and> get_utm_projection_fcn (shape rect_lib (Rect 2 9 4 11))
       = Partial_transform (Proj ''EPSG:4326'') (Proj ''EPSG:32617'')
   \<and> get_utm_projection_fcn (shape rect_lib (Rect 2 9 4 11))
       = get_utm_projection_fcn (shape rect_lib (Rect (-79) 35 (-78) 36))"
  by (simp add: get_utm_zone_def rect_lib_def py_int_def get_utm_projection_fcn_const)

section \<open>Coverage Rasterizer: empty input and repeated overlaps\<close>

lemma calculate_coverage_bound:
  assumes "''sgeom'' \<in> set names" "0 < y" "0 < x"
  shows "\<exists>cov. calculate_coverage names lib ovs (y, x) b = Inr cov \<and> wf_grid (nat y) (nat x) cov"
proof -
  have wf: "wf_grid (nat y) (nat x) (replicate (nat y) (replicate (nat x) (0 :: 16 word)))"
    by (rule wf_grid_zeros)
  from accumulate_bound [OF assms(1) wf] obtain cov where
    "accumulate names lib (y, x) (pixel_transform (y, x) b)
       (replicate (nat y) (replicate (nat x) 0)) ovs = Inr cov" "wf_grid (nat y) (nat x) cov"
    by blast
  with assms(2,3) show ?thesis by (simp add: calculate_coverage_pos)
qed

text \<open>
  Claim C1, as amended. For positive dimensions and every bounding box, accumulating the
  empty list returns the grid of zeros. In a kernel where \<open>sgeom\<close> is bound, accumulating N
  copies of an overlap returns a grid whose cell is N (in \<open>uint16\<close>) where the overlap is
  not empty and the library burns it into that cell, and 0 elsewhere.
\<close>

theorem calculate_coverage_empty_and_copies:
  "0 < y \<Longrightarrow> 0 < x \<Longrightarrow>
   calculate_coverage names lib [] (y, x) bnds = Inr (replicate (nat y) (replicate (nat x) 0))
   \<and> (''sgeom'' \<in> set names \<longrightarrow>
        (\<exists>cov. calculate_coverage names lib (replicate N overlap) (y, x) bnds = Inr cov
           \<and> (\<forall>r < nat y. \<forall>c < nat x.
                 cov ! r ! c =
                   (if \<not> is_empty lib overlap
                        \<and> burnt lib [mapping lib overlap] (pixel_transform (y, x) bnds) r c
                    then of_nat N else 0))))"
proof (intro conjI impI)
  assume pos: "0 < y" "0 < x"
  then show "calculate_coverage names lib [] (y, x) bnds
               = Inr (replicate (nat y) (replicate (nat x) 0))"
    by (simp add: calculate_coverage_pos)
  assume b: "''sgeom'' \<in> set names"
  from calculate_coverage_bound [OF b pos] obtain cov where
    cov: "calculate_coverage names lib (replicate N overlap) (y, x) bnds = Inr cov"
    by blast
  have "cov ! r ! c =
          (if \<not> is_empty lib overlap
               \<and> burnt lib [mapping lib overlap] (pixel_transform (y, x) bnds) r c
           then of_nat N else 0)" if "r < nat y" "c < nat x" for r c
    using calculate_coverage_cells [OF cov that] by (simp add: covering_replicate)
  with cov show "\<exists>cov. calculate_coverage names lib (replicate N overlap) (y, x) bnds = Inr cov
           \<and> (\<forall>r < nat y. \<forall>c < nat x.
                 cov ! r ! c =
                   (if \<not> is_empty lib overlap
                        \<and> burnt lib [mapping lib overlap] (pixel_transform (y, x) bnds) r c
                    then of_nat N else 0))"
    by blast
qed

theorem calculate_coverage_empty_and_copies_witness:
  "(0::int) < 2 \<and> ''sgeom'' \<in> set (''sgeom'' # notebook_names)
   \<and> calculate_coverage (''sgeom'' # notebook_names) rect_lib [] (2, 2) (0, 0, 54, 54)
       = Inr [[0, 0], [0, 0]]
   \<and> (\<exists>cov. calculate_coverage (''sgeom'' # notebook_names) rect_lib
               (replicate 3 (Rect 0 0 54 54)) (2, 2) (0, 0, 54, 54) = Inr cov
          \<and> cov ! 0 ! 0 = 3 \<and> cov ! 0 ! 1 = 3 \<and> cov ! 1 ! 0 = 3 \<and> cov ! 1 ! 1 = 3)"
proof -
  have pos: "(0::int) < 2" by simp
  have b: "''sgeom'' \<in> set (''sgeom'' # notebook_names)" by simp
  note t = calculate_coverage_empty_and_copies [OF pos pos,
      where names = "''sgeom'' # notebook_names" and lib = rect_lib
        and bnds = "(0, 0, 54, 54)" and N = 3 and overlap = "Rect 0 0 54 54"]
  from t have z: "calculate_coverage (''sgeom'' # notebook_names) rect_lib [] (2, 2) (0, 0, 54, 54)
       = Inr [[0, 0], [0, 0]]"
    by (simp add: numeral_2_eq_2)
  from t b obtain cov where
    cov: "calculate_coverage (''sgeom'' # notebook_names) rect_lib
               (replicate 3 (Rect 0 0 54 54)) (2, 2) (0, 0, 54, 54) = Inr cov" and
    cells: "\<forall>r < nat 2. \<forall>c < nat 2. cov ! r ! c =
               (if \<not> is_empty rect_lib (Rect 0 0 54 54)
                    \<and> burnt rect_lib [mapping rect_lib (Rect 0 0 54 54)]
                         (pixel_transform (2, 2) (0, 0, 54, 54)) r c
                then of_nat 3 else 0)"
    by blast
  have "cov ! 0 ! 0 = 3" "cov ! 0 ! 1 = 3" "cov ! 1 ! 0 = 3" "cov ! 1 ! 1 = 3"
    using cells [rule_format, of 0 0] cells [rule_format, of 0 1]
      cells [rule_format, of 1 0] cells [rule_format, of 1 1]
    by (simp_all add: rect_lib_def pixel_transform_def)
  with pos b z cov show ?thesis by blast
qed

text \<open>
  Claim C1 as stated fails. In the notebook's own namespace one copy of the AOI raises
  \<open>NameError\<close>; with \<open>sgeom\<close> bound and a bounding box wider than the AOI, the cells outside
  the AOI stay 0; and with a zero dimension the empty list raises \<open>ZeroDivisionError\<close>.
\<close>

theorem calculate_coverage_copies_counterexample:
  "calculate_coverage notebook_names rect_lib (replicate 1 (Rect 0 0 54 54)) (2, 2)
       (bounds rect_lib (Rect 0 0 54 54)) = Inl (NameError ''sgeom'')
   \<and> calculate_coverage (''sgeom'' # notebook_names) rect_lib (replicate 1 (Rect 0 0 54 54))
       (2, 2) (0, 0, 108, 54) = Inr [[1, 0], [1, 0]]
   \<and> calculate_coverage notebook_names rect_lib [] (0, 2) (0, 0, 54, 54) = Inl ZeroDivisionError"
  by (simp add: calculate_coverage_def np_zeros_def pixel_transform_def lookup_global_def
      rasterize_def iadd_def rect_lib_def numeral_2_eq_2 upt_rec sgeom_unbound)

section \<open>The unbound name in the rasterizer\<close>

text \<open>
  Claim C2, as amended. The notebook never binds \<open>sgeom\<close>. In its namespace, for a grid of
  positive dimensions, \<open>calculate_coverage\<close> raises \<open>NameError\<close> as soon as the list holds
  one non-empty overlap and returns the grid of zeros otherwise. A zero dimension raises
  \<open>ZeroDivisionError\<close> and a negative one \<open>ValueError\<close>, before the loop is entered.
  Whatever the dimensions, the call returns normally only when every overlap of the list
  is empty.
\<close>

theorem calculate_coverage_NameError:
  "''sgeom'' \<notin> set notebook_names
   \<and> calculate_coverage notebook_names lib overlaps (y, x) bnds =
       (if x = 0 \<or> y = 0 then Inl ZeroDivisionError
        else if y < 0 \<or> x < 0 then Inl ValueError
        else if \<exists>overlap \<in> set overlaps. \<not> is_empty lib overlap
        then Inl (NameError ''sgeom'')
        else Inr (replicate (nat y) (replicate (nat x) 0)))
   \<and> (\<forall>cov. calculate_coverage notebook_names lib overlaps dimensions bnds = Inr cov
          \<longrightarrow> (\<forall>overlap \<in> set overlaps. is_empty lib overlap))"
proof (intro conjI impI allI)
  show "''sgeom'' \<notin> set notebook_names" by (rule sgeom_unbound)
next
  show "calculate_coverage notebook_names lib overlaps (y, x) bnds =
       (if x = 0 \<or> y = 0 then Inl ZeroDivisionError
        else if y < 0 \<or> x < 0 then Inl ValueError
        else if \<exists>overlap \<in> set overlaps. \<not> is_empty lib overlap
        then Inl (NameError ''sgeom'')
        else Inr (replicate (nat y) (replicate (nat x) 0)))"
  proof (cases "0 < y \<and> 0 < x")
    case True
    then show ?thesis
      by (simp add: calculate_coverage_pos accumulate_unbound [OF sgeom_unbound])
  next
    case False
    then show ?thesis
      by (auto simp: calculate_coverage_def np_zeros_def)
  qed
next
  fix cov
  assume r: "calculate_coverage notebook_names lib overlaps dimensions bnds = Inr cov"
  obtain y x where d: "dimensions = (y, x)" by (cases dimensions)
  from calculate_coverage_Inr [OF r [unfolded d]]
  show "\<forall>overlap \<in> set overlaps. is_empty lib overlap"
    by (auto simp: accumulate_unbound [OF sgeom_unbound] split: if_splits)
qed

theorem calculate_coverage_NameError_witness:
  "calculate_coverage notebook_names rect_lib [Empty, Rect 0 0 54 54, Empty] (6, 3)
       (0, 0, 54, 54) = Inl (NameError ''sgeom'')
   \<and> calculate_coverage notebook_names rect_lib [Empty, Empty] (6, 3) (0, 0, 54, 54)
       = Inr (replicate 6 (replicate 3 0))
   \<and> calculate_coverage notebook_names rect_lib [Empty, Rect 0 0 54 54, Empty] (6, 0)
       (0, 0, 54, 54) = Inl ZeroDivisionError
   \<and> calculate_coverage notebook_names rect_lib [Empty, Rect 0 0 54 54, Empty] (6, - 3)
       (0, 0, 54, 54) = Inl ValueError"
  using calculate_coverage_NameError [of rect_lib "[Empty, Rect 0 0 54 54, Empty]" 6 3 "(0, 0, 54, 54)"]
    calculate_coverage_NameError [of rect_lib "[Empty, Empty]" 6 3 "(0, 0, 54, 54)"]
    calculate_coverage_NameError [of rect_lib "[Empty, Rect 0 0 54 54, Empty]" 6 0 "(0, 0, 54, 54)"]
    calculate_coverage_NameError [of rect_lib "[Empty, Rect 0 0 54 54, Empty]" 6 "- 3" "(0, 0, 54, 54)"]
  by (simp add: rect_lib_def)

text \<open>
  Claim C2 as stated fails for degenerate dimensions: with a non-empty overlap the call
  raises \<open>ZeroDivisionError\<close> for the dimensions (0, 2) and \<open>ValueError\<close> for (-1, 2), not
  \<open>NameError\<close>.
\<close>

theorem calculate_coverage_degenerate_dimensions_counterexample:
  "calculate_coverage notebook_names rect_lib [Rect 0 0 54 54] (0, 2) (0, 0, 54, 54)
     = Inl ZeroDivisionError
   \<and> calculate_coverage notebook_names rect_lib [Rect 0 0 54 54] (- 1, 2) (0, 0, 54, 54)
     = Inl ValueError"
  by (simp add: calculate_coverage_def np_zeros_def)

section \<open>Runs of the notebook\<close>

lemma agree_start:
  "bound_names k = bound_names k' \<Longrightarrow>
   agree 0 (k\<lparr>events := [], raised := None\<rparr>) (k'\<lparr>events := [], raised := None\<rparr>)"
  by (simp add: agree_def)

lemma agree_define_aoi:
  "agree 0 k k' \<Longrightarrow> agree 1 (run_cell (cell_define_aoi lib a) k) (run_cell (cell_define_aoi lib a) k')"
  by (auto simp: agree_def run_cell_def cell_define_aoi_def split: option.splits)

lemma agree_build_request:
  "agree 1 k k' \<Longrightarrow> agree 1 (run_cell cell_build_request k) (run_cell cell_build_request k')"
  by (auto simp: agree_def run_cell_def cell_build_request_def raise_def emit_def
      split: option.splits sum.splits)

lemma agree_project:
  "agree 1 k k' \<Longrightarrow> agree 2 (run_cell (cell_project lib) k) (run_cell (cell_project lib) k')"
  by (auto simp: agree_def run_cell_def cell_project_def raise_def Let_def split: option.splits)

lemma agree_dimensions:
  "agree 2 k k' \<Longrightarrow> agree 3 (run_cell (cell_dimensions lib) k) (run_cell (cell_dimensions lib) k')"
  by (auto simp: agree_def run_cell_def cell_dimensions_def raise_def
      split: option.splits sum.splits)

lemma agree_search:
  "agree 3 k k' \<Longrightarrow> agree 4 (run_cell (cell_search c) k) (run_cell (cell_search c) k')"
  by (auto simp: agree_def run_cell_def cell_search_def emit_def split: option.splits)

lemma agree_overlaps:
  "agree 4 k k' \<Longrightarrow> agree 5 (run_cell (cell_overlaps lib) k) (run_cell (cell_overlaps lib) k')"
  by (auto simp: agree_def run_cell_def cell_overlaps_def raise_def
      split: option.splits sum.splits)

lemma agree_first_overlap:
  "agree 5 k k' \<Longrightarrow> agree 5 (run_cell cell_first_overlap k) (run_cell cell_first_overlap k')"
  by (auto simp: agree_def run_cell_def cell_first_overlap_def raise_def
      split: option.splits list.splits)

lemma agree_low_resolution:
  "agree 5 k k' \<Longrightarrow>
   agree 5 (run_cell (cell_low_resolution lib) k) (run_cell (cell_low_resolution lib) k')"
  by (auto simp: agree_def run_cell_def cell_low_resolution_def show_coverage_def raise_def
      emit_def Let_def split: option.splits sum.splits)

lemma agree_plot:
  "agree 5 k k' \<Longrightarrow> agree 5 (run_cell (cell_plot lib) k) (run_cell (cell_plot lib) k')"
  by (auto simp: agree_def run_cell_def cell_plot_def show_coverage_def raise_def
      emit_def Let_def split: option.splits sum.splits)

lemma run_all_agree:
  assumes "bound_names k = bound_names k'"
  shows "agree 5 (run_all lib a c k) (run_all lib a c k')"
  unfolding run_all_def fold_simps
  by (intro agree_plot agree_low_resolution agree_first_overlap agree_overlaps agree_search
      agree_dimensions agree_project agree_build_request agree_define_aoi agree_start assms)

lemma run_cell_bound_names:
  "(\<And>k. bound_names (cell k) = bound_names k) \<Longrightarrow> bound_names (run_cell cell k) = bound_names k"
  by (simp add: run_cell_def split: option.splits)

lemma cells_bound_names:
  "bound_names (cell_define_aoi lib a k) = bound_names k"
  "bound_names (cell_build_request k) = bound_names k"
  "bound_names (cell_project lib k) = bound_names k"
  "bound_names (cell_dimensions lib k) = bound_names k"
  "bound_names (cell_search c k) = bound_names k"
  "bound_names (cell_overlaps lib k) = bound_names k"
  "bound_names (cell_first_overlap k) = bound_names k"
  "bound_names (cell_low_resolution lib k) = bound_names k"
  "bound_names (cell_plot lib k) = bound_names k"
  by (simp_all add: cell_define_aoi_def cell_build_request_def cell_project_def
      cell_dimensions_def cell_search_def cell_overlaps_def cell_first_overlap_def
      cell_low_resolution_def cell_plot_def show_coverage_def raise_def emit_def Let_def
      split: option.splits sum.splits list.splits)

lemma run_all_bound_names: "bound_names (run_all lib a c k) = bound_names k"
  unfolding run_all_def fold_simps
  by (simp add: run_cell_bound_names cells_bound_names)

lemmas run_defs = run_all_def run_cell_def cell_define_aoi_def cell_build_request_def
  cell_project_def cell_dimensions_def cell_search_def cell_overlaps_def
  cell_first_overlap_def cell_low_resolution_def cell_plot_def show_coverage_def raise_def
  emit_def lookup_global_def fresh_kernel_def

text \<open>
  Claim C9. Running the cells twice in the same kernel on the same AOI and the same catalog
  answer gives the same outcome (the same log, with the same CoverageGrids shown, and the
  same exception if any): the outcome of a run depends on the kernel only through the
  names bound in it, not through the variables an earlier run left behind.
\<close>

theorem run_all_deterministic:
  "outcome (run_all lib test_aoi_geom catalog (run_all lib test_aoi_geom catalog k))
     = outcome (run_all lib test_aoi_geom catalog k)
   \<and> outcome (run_all lib test_aoi_geom catalog k)
     = outcome (run_all lib test_aoi_geom catalog (fresh_kernel (bound_names k)))"
proof -
  have "agree 5 (run_all lib test_aoi_geom catalog k') (run_all lib test_aoi_geom catalog k)"
    if "bound_names k' = bound_names k" for k' :: "('a, 'b) kernel"
    using that by (rule run_all_agree)
  from this [of "run_all lib test_aoi_geom catalog k"] this [of "fresh_kernel (bound_names k)"]
  show ?thesis
    by (simp add: run_all_bound_names fresh_kernel_def agree_def outcome_def)
qed

theorem run_all_deterministic_witness:
  "outcome (run_all rect_lib (Rect 0 0 (27 / 100) (27 / 100))
       [[''geometry'' \<mapsto> Rect 0 0 (27 / 100) (27 / 100)],
        [''geometry'' \<mapsto> Rect 0 0 (1 / 10) (27 / 100)]]
       (fresh_kernel (''sgeom'' # ''data_filter'' # notebook_names)))
     = ([Create_search, Search, Coverage_call (6, 3),
         Shown (replicate 6 [2, 1, 1]), Coverage_call (3, 3), Shown (replicate 3 [2, 1, 1])],
        None)
   \<and> outcome (run_all rect_lib (Rect 0 0 (27 / 100) (27 / 100))
       [[''geometry'' \<mapsto> Rect 0 0 (27 / 100) (27 / 100)],
        [''geometry'' \<mapsto> Rect 0 0 (1 / 10) (27 / 100)]]
       (run_all rect_lib (Rect 0 0 (27 / 100) (27 / 100))
          [[''geometry'' \<mapsto> Rect 0 0 (27 / 100) (27 / 100)],
           [''geometry'' \<mapsto> Rect 0 0 (1 / 10) (27 / 100)]]
          (fresh_kernel (''sgeom'' # ''data_filter'' # notebook_names))))
     = ([Create_search, Search, Coverage_call (6, 3),
         Shown (replicate 6 [2, 1, 1]), Coverage_call (3, 3), Shown (replicate 3 [2, 1, 1])],
        None)"
proof -
  let ?aoi = "Rect 0 0 (27 / 100) (27 / 100)"
  let ?items = "[[''geometry'' \<mapsto> Rect 0 0 (27 / 100) (27 / 100)],
        [''geometry'' \<mapsto> Rect 0 0 (1 / 10) (27 / 100)]] :: rect item list"
  let ?k = "fresh_kernel (''sgeom'' # ''data_filter'' # notebook_names) :: (rect, rect) kernel"
  have first: "outcome (run_all rect_lib ?aoi ?items ?k)
     = ([Create_search, Search, Coverage_call (6, 3),
         Shown (replicate 6 [2, 1, 1]), Coverage_call (3, 3), Shown (replicate 3 [2, 1, 1])],
        None)"
    by (simp add: run_defs outcome_def calculate_coverage_def np_zeros_def pixel_transform_def
        rasterize_def iadd_def rect_lib_def upt_rec get_overlap_shapes_utm_def
        calculate_overlap_def get_utm_projection_fcn_const get_coverage_dimensions_def
        min_dim_27 dim_of_floor search_limit_def eval_nat_numeral)
  from run_all_deterministic [of rect_lib ?aoi ?items ?k] first show ?thesis
    by simp
qed



















text \<open>
  In a kernel that binds only the notebook's own names, every run stops in the cell
  "Build Request" with \<open>NameError\<close> for \<open>data_filter\<close>, before any catalog call.
\<close>

lemma run_all_notebook_names:
  "outcome (run_all lib a c (fresh_kernel notebook_names)) = ([], Some (NameError ''data_filter''))"
  by (simp add: run_defs outcome_def data_filter_unbound)

section \<open>Overlap Calculator: one overlap per footprint\<close>

lemma yield_all_map:
  "\<forall>x \<in> set xs. f x = Inr (g x) \<Longrightarrow> yield_all f xs = Inr (map g xs)"
  by (induction xs) auto

lemma rect_area_self: "rect_area (rect_intersection a a) = rect_area a"
  by (cases a) (auto simp: max_def)

lemma rect_scale_disjoint:
  "rect_intersection a b = Empty \<Longrightarrow> rect_intersection (rect_scale 100 a) (rect_scale 100 b) = Empty"
  by (cases a; cases b) (auto simp: max_def min_def split: if_splits)

text \<open>
  Claim C6. When every item carries a footprint, \<open>get_overlap_shapes_utm\<close> yields one
  overlap per item, in the order of the items, and the i-th overlap is the intersection of
  the projected AOI with the i-th footprint projected by the AOI's transform. If the
  library's intersection of a geometry with itself keeps its area, a footprint equal to the
  AOI yields an overlap with the area of the projected AOI; if disjoint geometries have an
  empty intersection and stay disjoint under the projection, a footprint disjoint from the
  AOI yields an empty overlap.
\<close>

theorem get_overlap_shapes_utm_pointwise:
  "\<forall>item \<in> set items. item ''geometry'' \<noteq> None \<Longrightarrow>
   \<exists>outs. get_overlap_shapes_utm lib items aoi_shape = Inr outs
     \<and> length outs = length items
     \<and> (\<forall>i < length items.
          outs ! i =
            intersection lib (transform lib (get_utm_projection_fcn aoi_shape) aoi_shape)
              (transform lib (get_utm_projection_fcn aoi_shape)
                 (shape lib (the ((items ! i) ''geometry''))))
          \<and> ((\<forall>a. area lib (intersection lib a a) = area lib a)
               \<and> shape lib (the ((items ! i) ''geometry'')) = aoi_shape
               \<longrightarrow> area lib (outs ! i)
                     = area lib (transform lib (get_utm_projection_fcn aoi_shape) aoi_shape))
          \<and> ((\<forall>a b. disjoint lib a b \<longrightarrow> is_empty lib (intersection lib a b))
               \<and> (\<forall>a b. disjoint lib a b \<longrightarrow>
                      disjoint lib (transform lib (get_utm_projection_fcn aoi_shape) a)
                        (transform lib (get_utm_projection_fcn aoi_shape) b))
               \<and> disjoint lib aoi_shape (shape lib (the ((items ! i) ''geometry'')))
               \<longrightarrow> is_empty lib (outs ! i)))"
proof -
  assume geo: "\<forall>item \<in> set items. item ''geometry'' \<noteq> None"
  let ?pf = "get_utm_projection_fcn aoi_shape"
  let ?g = "\<lambda>item. intersection lib (transform lib ?pf aoi_shape)
                      (transform lib ?pf (shape lib (the (item ''geometry''))))"
  have "\<forall>item \<in> set items.
          calculate_overlap lib ?pf (transform lib ?pf aoi_shape) item = Inr (?g item)"
    using geo by (auto simp: calculate_overlap_def)
  then have out: "get_overlap_shapes_utm lib items aoi_shape = Inr (map ?g items)"
    by (simp add: get_overlap_shapes_utm_def Let_def yield_all_map)
  show ?thesis
    by (rule exI [of _ "map ?g items"]) (simp add: out)
qed

theorem get_overlap_shapes_utm_pointwise_witness:
  "\<exists>outs. get_overlap_shapes_utm rect_lib
             [[''geometry'' \<mapsto> Rect 0 0 1 1], [''geometry'' \<mapsto> Rect 2 2 3 3],
              [''geometry'' \<mapsto> Rect (1 / 2) 0 3 3]] (Rect 0 0 1 1) = Inr outs
     \<and> length outs = 3
     \<and> outs ! 0 = Rect 0 0 100 100 \<and> area rect_lib (outs ! 0) = 10000
     \<and> area rect_lib (transform rect_lib (get_utm_projection_fcn (Rect 0 0 1 1)) (Rect 0 0 1 1))
         = 10000
     \<and> outs ! 1 = Empty \<and> is_empty rect_lib (outs ! 1)
     \<and> outs ! 2 = Rect 50 0 100 100"
proof -
  let ?items = "[[''geometry'' \<mapsto> Rect 0 0 1 1], [''geometry'' \<mapsto> Rect 2 2 3 3],
              [''geometry'' \<mapsto> Rect (1 / 2) 0 3 3]] :: rect item list"
  have geo: "\<forall>item \<in> set ?items. item ''geometry'' \<noteq> None" by simp
  have l1: "\<forall>a. area rect_lib (intersection rect_lib a a) = area rect_lib a"
    by (simp add: rect_lib_def rect_area_self)
  have l2: "\<forall>a b. disjoint rect_lib a b \<longrightarrow> is_empty rect_lib (intersection rect_lib a b)"
    by (simp add: rect_lib_def)
  have l3: "\<forall>a b. disjoint rect_lib a b \<longrightarrow>
              disjoint rect_lib (transform rect_lib (get_utm_projection_fcn (Rect 0 0 1 1)) a)
                (transform rect_lib (get_utm_projection_fcn (Rect 0 0 1 1)) b)"
    by (simp add: rect_lib_def rect_scale_disjoint)
  have d: "disjoint rect_lib (Rect 0 0 1 1) (shape rect_lib (the ((?items ! 1) ''geometry'')))"
    by (simp add: rect_lib_def)
  have s: "shape rect_lib (the ((?items ! 0) ''geometry'')) = Rect 0 0 1 1"
    by (simp add: rect_lib_def)
  from get_overlap_shapes_utm_pointwise [OF geo, of rect_lib "Rect 0 0 1 1"]
  obtain outs where
    outs: "get_overlap_shapes_utm rect_lib ?items (Rect 0 0 1 1) = Inr outs" and
    len: "length outs = length ?items" and
    each: "\<forall>i < length ?items.
          outs ! i =
            intersection rect_lib
              (transform rect_lib (get_utm_projection_fcn (Rect 0 0 1 1)) (Rect 0 0 1 1))
              (transform rect_lib (get_utm_projection_fcn (Rect 0 0 1 1))
                 (shape rect_lib (the ((?items ! i) ''geometry''))))
          \<and> ((\<forall>a. area rect_lib (intersection rect_lib a a) = area rect_lib a)
               \<and> shape rect_lib (the ((?items ! i) ''geometry'')) = Rect 0 0 1 1
               \<longrightarrow> area rect_lib (outs ! i)
                     = area rect_lib
                         (transform rect_lib (get_utm_projection_fcn (Rect 0 0 1 1)) (Rect 0 0 1 1)))
          \<and> ((\<forall>a b. disjoint rect_lib a b \<longrightarrow> is_empty rect_lib (intersection rect_lib a b))
               \<and> (\<forall>a b. disjoint rect_lib a b \<longrightarrow>
                      disjoint rect_lib (transform rect_lib (get_utm_projection_fcn (Rect 0 0 1 1)) a)
                        (transform rect_lib (get_utm_projection_fcn (Rect 0 0 1 1)) b))
               \<and> disjoint rect_lib (Rect 0 0 1 1) (shape rect_lib (the ((?items ! i) ''geometry'')))
               \<longrightarrow> is_empty rect_lib (outs ! i))"
    by blast
  have e0: "area rect_lib (outs ! 0)
      = area rect_lib (transform rect_lib (get_utm_projection_fcn (Rect 0 0 1 1)) (Rect 0 0 1 1))"
    using each [rule_format, of 0] l1 s by simp
  have e1: "is_empty rect_lib (outs ! 1)"
    using each [rule_format, of 1] l2 l3 d by simp
  have a: "area rect_lib (transform rect_lib (get_utm_projection_fcn (Rect 0 0 1 1)) (Rect 0 0 1 1))
         = 10000"
    by (simp add: rect_lib_def)
  have o0: "outs ! 0 = Rect 0 0 100 100" using each [rule_format, of 0]
    by (simp add: rect_lib_def)
  have o1: "outs ! 1 = Empty" using e1 by (simp add: rect_lib_def)
  have o2: "outs ! 2 = Rect 50 0 100 100" using each [rule_format, of 2]
    by (simp add: rect_lib_def)
  from outs len e0 e1 a o0 o1 o2 show ?thesis by simp
qed

section \<open>Coverage Rasterizer: bounds of a cell\<close>

lemmas coverage_eval = calculate_coverage_def np_zeros_def pixel_transform_def
  lookup_global_def rasterize_def iadd_def rect_lib_def numeral_2_eq_2 upt_rec

text \<open>
  Claim C7. The raster of one overlap (fill 0, default value 1) holds at most 1 in each
  cell, and every cell of a grid that \<open>calculate_coverage\<close> returns lies between 0 and the
  number of non-empty overlaps of the list.
\<close>

theorem coverage_cell_bounded:
  "calculate_coverage names lib overlaps (y, x) bnds = Inr cov \<Longrightarrow> r < nat y \<Longrightarrow> c < nat x \<Longrightarrow>
   0 \<le> unat (cov ! r ! c)
   \<and> unat (cov ! r ! c) \<le> length (filter (\<lambda>overlap. \<not> is_empty lib overlap) overlaps)
   \<and> rasterize lib [mapping lib overlap] 0 1 (y, x) (pixel_transform (y, x) bnds) ! r ! c \<le> 1"
proof -
  assume cov: "calculate_coverage names lib overlaps (y, x) bnds = Inr cov"
    and rc: "r < nat y" "c < nat x"
  let ?n = "covering lib (pixel_transform (y, x) bnds) overlaps r c"
  have "unat (cov ! r ! c) = ?n mod 2 ^ 16"
    using calculate_coverage_cells [OF cov rc] by (simp add: unat_of_nat)
  also have "\<dots> \<le> ?n" by (rule mod_less_eq_dividend)
  also have "\<dots> \<le> length (filter (\<lambda>overlap. \<not> is_empty lib overlap) overlaps)"
    by (rule covering_le)
  finally show ?thesis using rc by (simp add: rasterize_nth)
qed

theorem coverage_cell_bounded_witness:
  "calculate_coverage (''sgeom'' # notebook_names) rect_lib
       [Rect 0 0 54 54, Rect 0 0 20 54, Empty] (2, 2) (0, 0, 54, 54) = Inr [[2, 1], [2, 1]]
   \<and> (0::nat) < nat 2 \<and> (1::nat) < nat 2
   \<and> unat ([[2, 1], [2, 1 :: 16 word]] ! 0 ! 1) = 1
   \<and> length (filter (\<lambda>overlap. \<not> is_empty rect_lib overlap)
               [Rect 0 0 54 54, Rect 0 0 20 54, Empty]) = 2
   \<and> unat ([[2, 1], [2, 1 :: 16 word]] ! 0 ! 1)
       \<le> length (filter (\<lambda>overlap. \<not> is_empty rect_lib overlap)
                    [Rect 0 0 54 54, Rect 0 0 20 54, Empty])
   \<and> rasterize rect_lib [mapping rect_lib (Rect 0 0 20 54)] 0 1 (2, 2)
         (pixel_transform (2, 2) (0, 0, 54, 54)) ! 0 ! 1 \<le> 1"
proof -
  have e: "calculate_coverage (''sgeom'' # notebook_names) rect_lib
       [Rect 0 0 54 54, Rect 0 0 20 54, Empty] (2, 2) (0, 0, 54, 54) = Inr [[2, 1], [2, 1]]"
    by (simp add: coverage_eval)
  have r: "(0::nat) < nat 2" and c: "(1::nat) < nat 2" by simp_all
  have n: "length (filter (\<lambda>overlap. \<not> is_empty rect_lib overlap)
               [Rect 0 0 54 54, Rect 0 0 20 54, Empty]) = 2"
    by (simp add: rect_lib_def)
  have u: "unat ([[2, 1], [2, 1 :: 16 word]] ! 0 ! 1) = 1" by simp
  from coverage_cell_bounded [OF e r c, of "Rect 0 0 20 54"] e r c n u
  show ?thesis by simp
qed

text \<open>
  Claim C10. A cell of the returned grid is the number of non-empty overlaps burnt into it,
  modulo 65536 (the array is \<open>uint16\<close>): a count above 65535 wraps around to a smaller
  value, and a list of at most \<open>search_limit = 500\<close> overlaps gives the exact count.
\<close>

theorem coverage_uint16:
  "calculate_coverage names lib overlaps (y, x) bnds = Inr cov \<Longrightarrow> r < nat y \<Longrightarrow> c < nat x \<Longrightarrow>
   unat (cov ! r ! c) = covering lib (pixel_transform (y, x) bnds) overlaps r c mod 65536
   \<and> (65535 < covering lib (pixel_transform (y, x) bnds) overlaps r c
        \<longrightarrow> unat (cov ! r ! c) < covering lib (pixel_transform (y, x) bnds) overlaps r c)
   \<and> (length overlaps \<le> search_limit
        \<longrightarrow> unat (cov ! r ! c) = covering lib (pixel_transform (y, x) bnds) overlaps r c)"
proof -
  assume cov: "calculate_coverage names lib overlaps (y, x) bnds = Inr cov"
    and rc: "r < nat y" "c < nat x"
  let ?n = "covering lib (pixel_transform (y, x) bnds) overlaps r c"
  have m: "unat (cov ! r ! c) = ?n mod 65536"
    using calculate_coverage_cells [OF cov rc] by (simp add: unat_of_nat)
  have "?n \<le> length overlaps"
    by (simp add: covering_def)
  then have "length overlaps \<le> search_limit \<Longrightarrow> ?n mod 65536 = ?n"
    by (simp add: search_limit_def)
  moreover have "?n mod 65536 < 65536" by simp
  ultimately show ?thesis using m by auto
qed

theorem coverage_uint16_witness:
  "calculate_coverage (''sgeom'' # notebook_names) rect_lib
       [Rect 0 0 54 54, Rect 0 0 20 54, Empty] (2, 2) (0, 0, 54, 54) = Inr [[2, 1], [2, 1]]
   \<and> length [Rect 0 0 54 54, Rect 0 0 20 54, Empty] \<le> search_limit
   \<and> covering rect_lib (pixel_transform (2, 2) (0, 0, 54, 54))
         [Rect 0 0 54 54, Rect 0 0 20 54, Empty] 0 0 = 2
   \<and> unat ([[2, 1], [2, 1 :: 16 word]] ! 0 ! 0) = 2
   \<and> (\<exists>cov. calculate_coverage (''sgeom'' # notebook_names) rect_lib
                (replicate 65536 (Rect 0 0 54 54)) (2, 2) (0, 0, 54, 54) = Inr cov
          \<and> covering rect_lib (pixel_transform (2, 2) (0, 0, 54, 54))
                (replicate 65536 (Rect 0 0 54 54)) 0 0 = 65536
          \<and> unat (cov ! 0 ! 0) = 0)"
proof -
  have e: "calculate_coverage (''sgeom'' # notebook_names) rect_lib
       [Rect 0 0 54 54, Rect 0 0 20 54, Empty] (2, 2) (0, 0, 54, 54) = Inr [[2, 1], [2, 1]]"
    by (simp add: coverage_eval)
  have r: "(0::nat) < nat 2" by simp
  have l: "length [Rect 0 0 54 54, Rect 0 0 20 54, Empty] \<le> search_limit"
    by (simp add: search_limit_def)
  have n: "covering rect_lib (pixel_transform (2, 2) (0, 0, 54, 54))
         [Rect 0 0 54 54, Rect 0 0 20 54, Empty] 0 0 = 2"
    by (simp add: covering_def rect_lib_def pixel_transform_def)
  have small: "unat ([[2, 1], [2, 1 :: 16 word]] ! 0 ! 0) = 2"
    using coverage_uint16 [OF e r r] l n by simp
  have b: "''sgeom'' \<in> set (''sgeom'' # notebook_names)" by simp
  from calculate_coverage_bound [OF b, of 2 2 rect_lib "replicate 65536 (Rect 0 0 54 54)"
      "(0, 0, 54, 54)"]
  obtain cov where big: "calculate_coverage (''sgeom'' # notebook_names) rect_lib
                (replicate 65536 (Rect 0 0 54 54)) (2, 2) (0, 0, 54, 54) = Inr cov"
    by auto
  have m: "covering rect_lib (pixel_transform (2, 2) (0, 0, 54, 54))
                (replicate 65536 (Rect 0 0 54 54)) 0 0 = 65536"
    by (simp add: covering_replicate rect_lib_def pixel_transform_def)
  have "unat (cov ! 0 ! 0) = 0"
    using coverage_uint16 [OF big r r] by (simp add: m)
  with e l n small big m show ?thesis by blast
qed

section \<open>The search limit bounds the overlaps of a run\<close>

lemma yield_all_length: "yield_all f xs = Inr ys \<Longrightarrow> length ys = length xs"
  by (induction xs arbitrary: ys) (auto split: sum.splits)

lemma get_overlap_shapes_utm_length:
  "get_overlap_shapes_utm lib items aoi = Inr ovs \<Longrightarrow> length ovs = length items"
  by (auto simp: get_overlap_shapes_utm_def Let_def dest: yield_all_length)

lemma limit_inv_start: "limit_inv lib 0 (k\<lparr>events := [], raised := None\<rparr>)"
  by (simp add: limit_inv_def)

lemma limit_inv_define_aoi:
  "limit_inv lib 0 k \<Longrightarrow> limit_inv lib 0 (run_cell (cell_define_aoi lib a) k)"
  by (auto simp: limit_inv_def run_cell_def cell_define_aoi_def split: option.splits)

lemma limit_inv_build_request:
  "limit_inv lib 0 k \<Longrightarrow> limit_inv lib 0 (run_cell cell_build_request k)"
  by (auto simp: limit_inv_def run_cell_def cell_build_request_def raise_def emit_def
      split: option.splits sum.splits)

lemma limit_inv_project:
  "limit_inv lib 0 k \<Longrightarrow> limit_inv lib 0 (run_cell (cell_project lib) k)"
  by (auto simp: limit_inv_def run_cell_def cell_project_def raise_def Let_def
      split: option.splits)

lemma limit_inv_dimensions:
  "limit_inv lib 0 k \<Longrightarrow> limit_inv lib 0 (run_cell (cell_dimensions lib) k)"
  by (auto simp: limit_inv_def run_cell_def cell_dimensions_def raise_def
      split: option.splits sum.splits)

lemma limit_inv_search:
  "limit_inv lib 0 k \<Longrightarrow> limit_inv lib 1 (run_cell (cell_search c) k)"
  by (auto simp: limit_inv_def run_cell_def cell_search_def emit_def split: option.splits)

lemma limit_inv_overlaps:
  "limit_inv lib 1 k \<Longrightarrow> limit_inv lib 2 (run_cell (cell_overlaps lib) k)"
  by (auto simp: limit_inv_def run_cell_def cell_overlaps_def raise_def
      split: option.splits sum.splits dest: get_overlap_shapes_utm_length)

lemma limit_inv_first_overlap:
  "limit_inv lib 2 k \<Longrightarrow> limit_inv lib 2 (run_cell cell_first_overlap k)"
  by (auto simp: limit_inv_def run_cell_def cell_first_overlap_def raise_def
      split: option.splits list.splits)

lemma limit_inv_show_coverage:
  assumes "limit_inv lib 2 k" "raised k = None" "g_overlaps k = Some ovs"
  shows "limit_inv lib 2 (show_coverage lib ovs d u k)"
proof (cases "calculate_coverage (bound_names k) lib ovs d (bounds lib u)")
  case (Inl e)
  with assms show ?thesis
    by (auto simp: limit_inv_def show_coverage_def raise_def emit_def Let_def)
next
  case (Inr cov)
  from assms have "length ovs \<le> search_limit" by (auto simp: limit_inv_def)
  with Inr have "\<exists>ovs' d' b'. length ovs' \<le> search_limit
      \<and> calculate_coverage (bound_names k) lib ovs' d' b' = Inr cov"
    by blast
  with Inr assms show ?thesis
    by (auto simp: limit_inv_def show_coverage_def emit_def Let_def
        simp del: split_paired_Ex split_paired_All)
qed

lemma limit_inv_raise: "limit_inv lib n k \<Longrightarrow> limit_inv lib n (raise e k)"
  by (simp add: limit_inv_def raise_def)

lemma limit_inv_low_resolution:
  "limit_inv lib 2 k \<Longrightarrow> limit_inv lib 2 (run_cell (cell_low_resolution lib) k)"
  by (auto simp: run_cell_def cell_low_resolution_def limit_inv_show_coverage limit_inv_raise
      split: option.splits)

lemma limit_inv_plot:
  "limit_inv lib 2 k \<Longrightarrow> limit_inv lib 2 (run_cell (cell_plot lib) k)"
  by (auto simp: run_cell_def cell_plot_def limit_inv_show_coverage limit_inv_raise
      split: option.splits)

lemma run_all_limit_inv: "limit_inv lib 2 (run_all lib a c k)"
  unfolding run_all_def fold_simps
  by (intro limit_inv_plot limit_inv_low_resolution limit_inv_first_overlap
      limit_inv_overlaps limit_inv_search limit_inv_dimensions limit_inv_project
      limit_inv_build_request limit_inv_define_aoi limit_inv_start)

text \<open>
  Every grid shown by a run is the result of \<open>calculate_coverage\<close> on at most 500 overlaps,
  so none of its cells has wrapped around.
\<close>

lemma run_all_shown_within_limit:
  "Shown cov \<in> set (events (run_all lib a c k)) \<Longrightarrow>
   \<exists>ovs d b. length ovs \<le> search_limit \<and> calculate_coverage (bound_names k) lib ovs d b = Inr cov"
  using run_all_limit_inv [of lib a c k] by (simp add: limit_inv_def run_all_bound_names)

end
